theory Spec2Isabelle
  imports Main
begin

section \<open>JavaScript values and objects\<close>

text \<open>
  The store keeps JSON data, so the values of a task's fields are the JSON primitives.
  \<open>undefined\<close> is not a JSON value: a property read that finds nothing is \<open>None\<close>
  in \<open>jsval option\<close>. Numbers are integers (ids are timestamps), printed in decimal.
\<close>

datatype jsval = JNull | JBool bool | JNum int | JStr string

datatype error = TypeError

text \<open>
  What a call of a store method did besides writing to storage: it returned without a
  callback call, it called the callback with a value, or it threw.
\<close>

datatype 'a outcome = Returned | Yielded 'a | Threw error

text \<open>
  An object is the list of its own properties in the engine's enumeration order (the
  order of \<open>for ... in\<close>, \<open>Object.keys\<close>, \<open>Object.values\<close> and
  \<open>JSON.stringify\<close>): array-index keys first, ascending, then the other keys in the
  order of their creation. A property read is an own-property lookup (\<open>map_of\<close>);
  names inherited from \<open>Object.prototype\<close> are outside the model.
\<close>

text \<open>The decimal digits of a number, most significant first.\<close>

function string_of_nat :: "nat \<Rightarrow> string" where
  "string_of_nat n =
     (if n < 10 then [''0123456789'' ! n]
      else string_of_nat (n div 10) @ [''0123456789'' ! (n mod 10)])"
  by pat_completeness auto
termination
  by (relation "measure (\<lambda>n. n)") auto

declare string_of_nat.simps [simp del]

definition string_of_int :: "int \<Rightarrow> string" where
  "string_of_int i = (if i < 0 then CHR ''-'' # string_of_nat (nat (- i)) else string_of_nat (nat i))"

text \<open>\<open>ToString\<close>, as a property key or a replacement string needs it.\<close>

fun to_string :: "jsval option \<Rightarrow> string" where
  "to_string None = ''undefined''"
| "to_string (Some JNull) = ''null''"
| "to_string (Some (JBool b)) = (if b then ''true'' else ''false'')"
| "to_string (Some (JNum i)) = string_of_int i"
| "to_string (Some (JStr s)) = s"

fun truthy :: "jsval option \<Rightarrow> bool" where
  "truthy None = False"
| "truthy (Some JNull) = False"
| "truthy (Some (JBool b)) = b"
| "truthy (Some (JNum i)) = (i \<noteq> 0)"
| "truthy (Some (JStr s)) = (s \<noteq> [])"

text \<open>
  An array index is a key that is the decimal form of a number below \<open>2^32 - 1\<close>.
  The keys of \<open>tasks\<close> are ids, kept as numbers; the keys of \<open>categories\<close> and the
  field names of a task are strings.
\<close>

definition array_index_nat :: "nat \<Rightarrow> nat option" where
  "array_index_nat k = (if k < 4294967295 then Some k else None)"

definition digits_value :: "string \<Rightarrow> nat" where
  "digits_value s = fold (\<lambda>c n. 10 * n + (of_char c - 48)) s 0"

definition array_index_str :: "string \<Rightarrow> nat option" where
  "array_index_str s =
     (if string_of_nat (digits_value s) = s \<and> digits_value s < 4294967295
      then Some (digits_value s) else None)"

fun replace_own :: "'k \<Rightarrow> 'v \<Rightarrow> ('k \<times> 'v) list \<Rightarrow> ('k \<times> 'v) list" where
  "replace_own k v [] = []"
| "replace_own k v (p # ps) = (if fst p = k then (k, v) # ps else p # replace_own k v ps)"

fun insert_own :: "('k \<Rightarrow> nat option) \<Rightarrow> 'k \<Rightarrow> 'v \<Rightarrow> ('k \<times> 'v) list \<Rightarrow> ('k \<times> 'v) list" where
  "insert_own ix k v [] = [(k, v)]"
| "insert_own ix k v (p # ps) =
     (case ix k of
        None \<Rightarrow> p # insert_own ix k v ps
      | Some n \<Rightarrow>
          (case ix (fst p) of
             None \<Rightarrow> (k, v) # p # ps
           | Some m \<Rightarrow> if m < n then p # insert_own ix k v ps else (k, v) # p # ps))"

text \<open>\<open>obj[k] = v\<close>: an existing property keeps its place, a new one is created.\<close>

definition obj_set :: "('k \<Rightarrow> nat option) \<Rightarrow> 'k \<Rightarrow> 'v \<Rightarrow> ('k \<times> 'v) list \<Rightarrow> ('k \<times> 'v) list" where
  "obj_set ix k v ps = (if map_of ps k = None then insert_own ix k v ps else replace_own k v ps)"

text \<open>\<open>delete obj[k]\<close>.\<close>

definition obj_delete :: "'k \<Rightarrow> ('k \<times> 'v) list \<Rightarrow> ('k \<times> 'v) list" where
  "obj_delete k ps = filter (\<lambda>p. fst p \<noteq> k) ps"

section \<open>The persisted document\<close>

type_synonym task = "(string \<times> jsval) list"

type_synonym query = "(string \<times> jsval) list"

record document =
  tasks :: "(nat \<times> task) list"
  categories :: "(string \<times> nat list) list"

text \<open>
  What the storage key holds: a document \<open>{tasks: ..., categories: ...}\<close>, or the
  object \<open>{list: ..., categories: ...}\<close> that \<open>drop\<close> writes, which has no
  \<open>tasks\<close> property.
\<close>

datatype stored = Tasks_Doc document | List_Doc "jsval list" "(string \<times> nat list) list"

fun stored_tasks :: "stored \<Rightarrow> (nat \<times> task) list option" where
  "stored_tasks (Tasks_Doc d) = Some (tasks d)"
| "stored_tasks (List_Doc l c) = None"

fun stored_categories :: "stored \<Rightarrow> (string \<times> nat list) list" where
  "stored_categories (Tasks_Doc d) = categories d"
| "stored_categories (List_Doc l c) = c"

definition empty_document :: document where
  "empty_document = \<lparr>tasks = [], categories = []\<rparr>"

text \<open>The key under which a task is indexed: \<open>todos.categories[task.category]\<close>.\<close>

definition category_key :: "task \<Rightarrow> string" where
  "category_key t = to_string (map_of t ''category'')"

text \<open>
  The document invariant: every id in a category list is a key of \<open>tasks\<close>, and every
  task's category is a key of \<open>categories\<close> whose list holds the task's id.
\<close>

definition doc_inv :: "document \<Rightarrow> bool" where
  "doc_inv d =
     (list_all (\<lambda>(c, ids). list_all (\<lambda>i. map_of (tasks d) i \<noteq> None) ids) (categories d) \<and>
      list_all (\<lambda>(i, t). case map_of (categories d) (category_key t) of
                            None \<Rightarrow> False | Some ids \<Rightarrow> i \<in> set ids) (tasks d))"

section \<open>The storage accessor\<close>

text \<open>
  \<open>Store(name, callback)\<close>: the argument is what \<open>localStorage.getItem(name)\<close> holds
  (\<open>None\<close> when there is no item). The callback defaults to a function, so it is
  always called.
\<close>

definition Store_constructor :: "stored option \<Rightarrow> stored \<times> stored outcome" where
  "Store_constructor item =
     (let st = (case item of None \<Rightarrow> Tasks_Doc empty_document | Some s \<Rightarrow> s)
      in (st, Yielded st))"

text \<open>
  The filter callback of \<open>find\<close> and \<open>findCategories\<close>: the loop over the keys of
  the query. Reading a field of \<open>undefined\<close> throws.
\<close>

fun query_loop :: "string list \<Rightarrow> query \<Rightarrow> task option \<Rightarrow> error + bool" where
  "query_loop [] query todo = Inr True"
| "query_loop (q # qs) query todo =
     (case todo of
        None \<Rightarrow> Inl TypeError
      | Some t \<Rightarrow> if map_of query q \<noteq> map_of t q then Inr False else query_loop qs query todo)"

definition query_filter :: "query \<Rightarrow> task option \<Rightarrow> error + bool" where
  "query_filter query todo = query_loop (map fst query) query todo"

text \<open>\<open>Array.prototype.filter\<close> and \<open>map\<close> with a callback that may throw.\<close>

fun filterE :: "('a \<Rightarrow> error + bool) \<Rightarrow> 'a list \<Rightarrow> error + 'a list" where
  "filterE p [] = Inr []"
| "filterE p (x # xs) =
     (case p x of
        Inl e \<Rightarrow> Inl e
      | Inr b \<Rightarrow> (case filterE p xs of Inl e \<Rightarrow> Inl e | Inr ys \<Rightarrow> Inr (if b then x # ys else ys)))"

fun mapE :: "('a \<Rightarrow> error + 'b) \<Rightarrow> 'a list \<Rightarrow> error + 'b list" where
  "mapE f [] = Inr []"
| "mapE f (x # xs) =
     (case f x of
        Inl e \<Rightarrow> Inl e
      | Inr y \<Rightarrow> (case mapE f xs of Inl e \<Rightarrow> Inl e | Inr ys \<Rightarrow> Inr (y # ys)))"

text \<open>
  \<open>find(query, callback)\<close>. \<open>Object.values\<close> of \<open>undefined\<close> throws. The
  storage is only read.
\<close>

definition Store_find :: "query \<Rightarrow> bool \<Rightarrow> stored \<Rightarrow> task list outcome" where
  "Store_find query callback st =
     (if \<not> callback then Returned
      else (case stored_tasks st of
              None \<Rightarrow> Threw TypeError
            | Some ts \<Rightarrow>
                (case filterE (\<lambda>todo. query_filter query (Some todo)) (map snd ts) of
                   Inl e \<Rightarrow> Threw e
                 | Inr todos \<Rightarrow> Yielded todos)))"

text \<open>
  \<open>findCategories(query, callback)\<close>. The arrow function of the map step has a block
  body with no \<open>return\<close>: it reads \<open>todos.tasks[id]\<close> and yields \<open>undefined\<close>.
\<close>

definition map_step :: "(nat \<times> task) list option \<Rightarrow> nat \<Rightarrow> error + task option" where
  "map_step ts i =
     (case ts of
        None \<Rightarrow> Inl TypeError
      | Some tasks_obj \<Rightarrow> (let discarded = map_of tasks_obj i in Inr None))"

definition categorize :: "query \<Rightarrow> (nat \<times> task) list option \<Rightarrow> string \<times> nat list \<Rightarrow>
    error + (string \<times> task option list)" where
  "categorize query ts entry =
     (case mapE (map_step ts) (snd entry) of
        Inl e \<Rightarrow> Inl e
      | Inr mapped \<Rightarrow>
          (case filterE (query_filter query) mapped of
             Inl e \<Rightarrow> Inl e
           | Inr kept \<Rightarrow> Inr (fst entry, kept)))"

definition Store_findCategories :: "query \<Rightarrow> bool \<Rightarrow> stored \<Rightarrow>
    (string \<times> task option list) list outcome" where
  "Store_findCategories query callback st =
     (if \<not> callback then Returned
      else (case mapE (categorize query (stored_tasks st)) (stored_categories st) of
              Inl e \<Rightarrow> Threw e
            | Inr categorizedTodos \<Rightarrow> Yielded categorizedTodos))"

text \<open>
  \<open>save(updateData, callback, id)\<close>. \<open>now\<close> is what \<open>new Date().getTime()\<close>
  returns. The callback defaults to a function. \<open>if (id)\<close> takes a missing id and the
  id \<open>0\<close> alike.
\<close>

fun merge_loop :: "string list \<Rightarrow> task \<Rightarrow> task \<Rightarrow> task" where
  "merge_loop [] updateData task = task"
| "merge_loop (key # keys) updateData task =
     merge_loop keys updateData
       (case map_of updateData key of
          None \<Rightarrow> task
        | Some v \<Rightarrow> obj_set array_index_str key v task)"

datatype saved = Updated document | Created "task list"

definition save_existing :: "task \<Rightarrow> nat \<Rightarrow> stored \<Rightarrow> stored \<times> saved outcome" where
  "save_existing updateData i st =
     (case st of
        List_Doc l c \<Rightarrow> (st, Threw TypeError)
      | Tasks_Doc todos \<Rightarrow>
          (case map_of (tasks todos) i of
             None \<Rightarrow> (st, Returned)
           | Some task \<Rightarrow>
               (let task' = merge_loop (map fst updateData) updateData task;
                    todos' = todos\<lparr>tasks := obj_set array_index_nat i task' (tasks todos)\<rparr>
                in (Tasks_Doc todos', Yielded (Updated todos')))))"

definition push_category :: "string \<Rightarrow> nat \<Rightarrow> (string \<times> nat list) list \<Rightarrow> (string \<times> nat list) list" where
  "push_category c i cats =
     (let cats' = (if map_of cats c = None then obj_set array_index_str c [] cats else cats)
      in (case map_of cats' c of
            None \<Rightarrow> cats'
          | Some ids \<Rightarrow> obj_set array_index_str c (ids @ [i]) cats'))"

definition save_new :: "task \<Rightarrow> nat \<Rightarrow> stored \<Rightarrow> stored \<times> saved outcome" where
  "save_new updateData0 now st =
     (let updateData = obj_set array_index_str ''id'' (JNum (int now)) updateData0
      in (case st of
            List_Doc l c \<Rightarrow> (st, Threw TypeError)
          | Tasks_Doc todos \<Rightarrow>
              (let todos1 = todos\<lparr>tasks := obj_set array_index_nat now updateData (tasks todos)\<rparr>;
                   todos2 = todos1\<lparr>categories :=
                              push_category (category_key updateData) now (categories todos1)\<rparr>
               in (Tasks_Doc todos2, Yielded (Created [updateData])))))"

definition Store_save :: "task \<Rightarrow> bool \<Rightarrow> nat option \<Rightarrow> nat \<Rightarrow> stored \<Rightarrow> stored \<times> saved outcome" where
  "Store_save updateData callback id_arg now st =
     (case id_arg of
        None \<Rightarrow> save_new updateData now st
      | Some i \<Rightarrow> if i \<noteq> 0 then save_existing updateData i st else save_new updateData now st)"

text \<open>
  \<open>remove(id, callback)\<close>. The loop reads \<open>todos.categories[task.category].length\<close>
  at every test; on a category that is no key of \<open>categories\<close> that is a field of
  \<open>undefined\<close>. The callback has no default here: calling a missing one throws
  after the document was written.
\<close>

function remove_loop :: "nat \<Rightarrow> nat \<Rightarrow> string \<Rightarrow> document \<Rightarrow> error + document" where
  "remove_loop i id_arg c todos =
     (case map_of (categories todos) c of
        None \<Rightarrow> Inl TypeError
      | Some ids \<Rightarrow>
          if i < length ids then
            (if ids ! i = id_arg then
               (let ids' = take i ids @ drop (Suc i) ids;
                    todos1 = todos\<lparr>categories := obj_set array_index_str c ids' (categories todos)\<rparr>;
                    todos2 = todos1\<lparr>tasks := obj_delete id_arg (tasks todos1)\<rparr>
                in Inr (if length ids' = 0
                        then todos2\<lparr>categories := obj_delete c (categories todos2)\<rparr>
                        else todos2))
             else remove_loop (Suc i) id_arg c todos)
          else Inr todos)"
  by pat_completeness auto
termination
  by (relation "measure (\<lambda>(i, id_arg, c, todos).
        (case map_of (categories todos) c of None \<Rightarrow> 0 | Some ids \<Rightarrow> length ids - i))") auto

declare remove_loop.simps [simp del]

definition Store_remove :: "nat \<Rightarrow> bool \<Rightarrow> stored \<Rightarrow> stored \<times> document outcome" where
  "Store_remove id_arg callback st =
     (case st of
        List_Doc l c \<Rightarrow> (st, Threw TypeError)
      | Tasks_Doc todos \<Rightarrow>
          (case map_of (tasks todos) id_arg of
             None \<Rightarrow> (st, Returned)
           | Some task \<Rightarrow>
               (case remove_loop 0 id_arg (category_key task) todos of
                  Inl e \<Rightarrow> (st, Threw e)
                | Inr todos' \<Rightarrow>
                    (Tasks_Doc todos', if callback then Yielded todos' else Threw TypeError))))"

text \<open>
  The document \<open>remove\<close> writes when the loop finds the id in the list
  \<open>ids\<close> of the category \<open>c\<close>: the list without the first occurrence of the
  id, the task deleted, and the category deleted when the list became empty.
\<close>

definition removed :: "nat \<Rightarrow> string \<Rightarrow> nat list \<Rightarrow> document \<Rightarrow> document" where
  "removed i c ids d =
     (if remove1 i ids = []
      then \<lparr>tasks = obj_delete i (tasks d),
            categories = obj_delete c (obj_set array_index_str c [] (categories d))\<rparr>
      else \<lparr>tasks = obj_delete i (tasks d),
            categories = obj_set array_index_str c (remove1 i ids) (categories d)\<rparr>)"

text \<open>\<open>drop(callback)\<close> writes \<open>{list: [], categories: {}}\<close>.\<close>

definition Store_drop :: "bool \<Rightarrow> stored \<Rightarrow> stored \<times> stored outcome" where
  "Store_drop callback st =
     (let todos = List_Doc [] []
      in (todos, if callback then Yielded todos else Threw TypeError))"

section \<open>The view renderer\<close>

definition htmlEscapes :: "(char \<times> string) list" where
  \<open>htmlEscapes =
     [(CHR ''&'', ''&amp;''), (CHR ''<'', ''&lt;''), (CHR ''>'', ''&gt;''),
      (CHR 0x22, ''&quot;''), (CHR 0x27, ''&#x27;''), (CHR 0x60, ''&#x60;'')]\<close>

definition escapeHtmlChar :: "char \<Rightarrow> string option" where
  "escapeHtmlChar chr = map_of htmlEscapes chr"

text \<open>The character class of \<open>reUnescapedHtml\<close>.\<close>

definition reUnescapedHtml :: "char \<Rightarrow> bool" where
  \<open>reUnescapedHtml c = (c \<in> set [CHR ''&'', CHR ''<'', CHR ''>'', CHR 0x22, CHR 0x27, CHR 0x60])\<close>

text \<open>
  \<open>string.replace(reUnescapedHtml, escapeHtmlChar)\<close>: the pattern is global and the
  replacement a function, so every match is replaced by what the function returns
  (as a string).
\<close>

fun replace_unescaped :: "string \<Rightarrow> string" where
  "replace_unescaped [] = []"
| "replace_unescaped (c # cs) =
     (if reUnescapedHtml c
      then (case escapeHtmlChar c of None \<Rightarrow> ''undefined'' | Some e \<Rightarrow> e) @ replace_unescaped cs
      else c # replace_unescaped cs)"

text \<open>
  \<open>escape(string)\<close>. A value that is no string is returned as it is: it is falsy, or
  its string form (a number, \<open>true\<close>) has no character of the class.
\<close>

fun escape :: "jsval option \<Rightarrow> jsval option" where
  "escape (Some (JStr s)) =
     (if s \<noteq> [] \<and> list_ex reUnescapedHtml s then Some (JStr (replace_unescaped s))
      else Some (JStr s))"
| "escape v = v"

text \<open>
  \<open>str.replace(pattern, replacement)\<close> with a string pattern: the first occurrence
  is replaced, and in the replacement a dollar sign followed by a dollar sign, an
  ampersand, a backtick or an apostrophe stands for a dollar sign, the match, the text
  before it and the text after it (there are no capture groups, so a dollar sign
  followed by a digit stays as it is).
\<close>

fun indexOf :: "string \<Rightarrow> string \<Rightarrow> nat option" where
  "indexOf pat [] = (if pat = [] then Some 0 else None)"
| "indexOf pat (c # cs) =
     (if take (length pat) (c # cs) = pat then Some 0
      else map_option Suc (indexOf pat cs))"

fun GetSubstitution :: "string \<Rightarrow> string \<Rightarrow> string \<Rightarrow> string \<Rightarrow> string" where
  "GetSubstitution matched preceding following [] = []"
| "GetSubstitution matched preceding following [c] = [c]"
| "GetSubstitution matched preceding following (c # d # r) =
     (if c = CHR ''$'' \<and> d = CHR ''$'' then CHR ''$'' # GetSubstitution matched preceding following r
      else if c = CHR ''$'' \<and> d = CHR ''&'' then matched @ GetSubstitution matched preceding following r
      else if c = CHR ''$'' \<and> d = CHR 0x60 then preceding @ GetSubstitution matched preceding following r
      else if c = CHR ''$'' \<and> d = CHR 0x27 then following @ GetSubstitution matched preceding following r
      else c # GetSubstitution matched preceding following (d # r))"

definition js_replace :: "string \<Rightarrow> string \<Rightarrow> string \<Rightarrow> string" where
  "js_replace str pat replacement =
     (case indexOf pat str of
        None \<Rightarrow> str
      | Some i \<Rightarrow>
          take i str
          @ GetSubstitution pat (take i str) (drop (i + length pat) str) replacement
          @ drop (i + length pat) str)"

definition templateWrapper :: string where
  \<open>templateWrapper = ''<ul class="{{wrapperClass}}">'' @ ''{{items}}'' @ ''</ul>''\<close>

definition defaultTemplate :: string where
  \<open>defaultTemplate =
     ''<li data-id="{{id}}" class="{{completed}}">'' @
     ''<div class="view">'' @
     ''<input class="toggle" type="checkbox" {{checked}}>'' @
     ''<label class="title-label">{{title}}</label>'' @
     ''<label class="category-label">{{category}}</label>'' @
     ''<button class="destroy"></button>'' @
     ''</div>'' @
     ''</li>''\<close>

text \<open>One turn of the loop of \<open>show\<close>: the item of \<open>data[i]\<close>.\<close>

definition show_item :: "task \<Rightarrow> bool \<Rightarrow> string" where
  "show_item todo showCategory =
     (let template0 = defaultTemplate;
          completed = (if truthy (map_of todo ''completed'') then ''completed'' else []);
          checked = (if truthy (map_of todo ''completed'') then ''checked'' else []);
          template1 = js_replace template0 ''{{id}}'' (to_string (map_of todo ''id''));
          template2 = js_replace template1 ''{{title}}'' (to_string (escape (map_of todo ''title'')));
          template3 = js_replace template2 ''{{category}}''
                        (if showCategory then to_string (escape (map_of todo ''category'')) else []);
          template4 = js_replace template3 ''{{completed}}'' completed;
          template5 = js_replace template4 ''{{checked}}'' checked
      in template5)"

fun show_loop :: "task list \<Rightarrow> bool \<Rightarrow> string \<Rightarrow> string" where
  "show_loop [] showCategory view = view"
| "show_loop (todo # rest) showCategory view =
     show_loop rest showCategory (view @ show_item todo showCategory)"

definition Template_show :: "task list \<Rightarrow> bool \<Rightarrow> string" where
  "Template_show data showCategory =
     (let view = show_loop data showCategory [];
          view1 = js_replace templateWrapper ''{{items}}'' view;
          view2 = js_replace view1 ''{{wrapperClass}}'' ''todo-list''
      in view2)"

text \<open>\<open>str.includes(pat)\<close>, for reading a rendered string.\<close>

definition js_includes :: "string \<Rightarrow> string \<Rightarrow> bool" where
  "js_includes str pat = (indexOf pat str \<noteq> None)"

section \<open>Example documents\<close>

definition example_task :: task where
  "example_task =
     [(''title'', JStr ''A''), (''category'', JStr ''a''), (''completed'', JBool False),
      (''id'', JNum 5)]"

definition example_doc :: document where
  "example_doc =
     \<lparr>tasks = [(5, example_task),
               (6, [(''title'', JStr ''B''), (''category'', JStr ''a''), (''id'', JNum 6)])],
      categories = [(''a'', [5, 6])]\<rparr>"

section \<open>Objects as maps\<close>

lemma map_of_replace_own:
  "map_of ps k \<noteq> None \<Longrightarrow> map_of (replace_own k v ps) = (map_of ps)(k \<mapsto> v)"
  by (induction ps) (auto simp: fun_eq_iff)

lemma map_of_insert_own:
  "map_of ps k = None \<Longrightarrow> map_of (insert_own ix k v ps) = (map_of ps)(k \<mapsto> v)"
  by (induction ps) (auto simp: fun_eq_iff split: option.splits if_splits)

lemma map_of_obj_set: "map_of (obj_set ix k v ps) = (map_of ps)(k \<mapsto> v)"
  by (simp add: obj_set_def map_of_replace_own map_of_insert_own)

lemma map_of_obj_delete: "map_of (obj_delete k ps) = (map_of ps)(k := None)"
  by (induction ps) (auto simp: obj_delete_def fun_eq_iff)

lemma keys_replace_own: "map fst (replace_own k v ps) = map fst ps"
  by (induction ps) auto



text \<open>The definitions a concrete call is evaluated with.\<close>

lemma string_of_nat_digit: "n < 10 \<Longrightarrow> string_of_nat n = [''0123456789'' ! n]"
  by (simp add: string_of_nat.simps)

lemma string_of_nat_digits:
  "\<not> n < 10 \<Longrightarrow> string_of_nat n = string_of_nat (n div 10) @ [''0123456789'' ! (n mod 10)]"
  by (subst string_of_nat.simps) simp

lemmas object_eval =
  string_of_nat_digit string_of_nat_digits string_of_int_def array_index_nat_def array_index_str_def
  digits_value_def obj_set_def obj_delete_def category_key_def

lemmas store_eval =
  empty_document_def Store_constructor_def query_filter_def Store_find_def map_step_def
  categorize_def Store_findCategories_def save_existing_def push_category_def save_new_def
  Store_save_def remove_loop.simps Store_remove_def Store_drop_def doc_inv_def

section \<open>find\<close>

lemma query_loop_Some:
  "query_loop qs query (Some t) = Inr (\<forall>q\<in>set qs. map_of query q = map_of t q)"
  by (induction qs) auto

lemma filterE_total: "filterE (\<lambda>x. Inr (p x)) xs = Inr (filter p xs)"
  by (induction xs) auto

text \<open>
  Claim C8. On every persisted document, \<open>find(query, callback)\<close> calls the callback
  with exactly the tasks (in the order of \<open>Object.values\<close>) whose field \<open>q\<close> is
  strictly equal to \<open>query[q]\<close> for every key \<open>q\<close> of the query; for the query
  \<open>{completed: true}\<close> these are the tasks whose \<open>completed\<close> is \<open>true\<close>; and
  without a callback \<open>find\<close> returns at once: it calls nothing, and it never writes
  to storage (its model has no storage result).
\<close>

theorem find_yields_matching_tasks:
  "Store_find query True (Tasks_Doc d) =
     Yielded (filter (\<lambda>todo. \<forall>q\<in>set (map fst query). map_of todo q = map_of query q)
                (map snd (tasks d)))
   \<and> Store_find [(''completed'', JBool True)] True (Tasks_Doc d) =
       Yielded (filter (\<lambda>todo. map_of todo ''completed'' = Some (JBool True)) (map snd (tasks d)))
   \<and> Store_find query False st = Returned"
proof -
  have general: "Store_find q True (Tasks_Doc d) =
      Yielded (filter (\<lambda>todo. \<forall>k\<in>set (map fst q). map_of todo k = map_of q k)
                 (map snd (tasks d)))" for q
    by (simp add: Store_find_def query_filter_def query_loop_Some filterE_total eq_commute)
  have "Store_find [(''completed'', JBool True)] True (Tasks_Doc d) =
      Yielded (filter (\<lambda>todo. map_of todo ''completed'' = Some (JBool True)) (map snd (tasks d)))"
    by (simp add: general)
  moreover have "Store_find query False st = Returned"
    by (simp add: Store_find_def)
  ultimately show ?thesis
    using general [of query] by simp
qed

theorem find_yields_matching_tasks_witness:
  "Store_find [(''completed'', JBool True)] True
     (Tasks_Doc \<lparr>tasks = [(1, [(''title'', JStr ''A''), (''completed'', JBool True)]),
                          (2, [(''title'', JStr ''B''), (''completed'', JBool False)]),
                          (3, [(''title'', JStr ''C'')])],
                 categories = []\<rparr>) =
   Yielded [[(''title'', JStr ''A''), (''completed'', JBool True)]]"
  using find_yields_matching_tasks
    [of "[(''completed'', JBool True)]"
        "\<lparr>tasks = [(1, [(''title'', JStr ''A''), (''completed'', JBool True)]),
                   (2, [(''title'', JStr ''B''), (''completed'', JBool False)]),
                   (3, [(''title'', JStr ''C'')])],
          categories = []\<rparr>"]
  by simp

section \<open>findCategories\<close>

lemma error_TypeError: "(e::error) = TypeError"
  by (cases e) simp

lemma mapE_throws: "x \<in> set xs \<Longrightarrow> f x = Inl TypeError \<Longrightarrow> mapE f xs = Inl TypeError"
  by (induction xs) (auto split: sum.splits simp: error_TypeError)

lemma mapE_total: "mapE (\<lambda>x. Inr (g x)) xs = Inr (map g xs)"
  by (induction xs) auto

lemma filterE_throws: "x \<in> set xs \<Longrightarrow> p x = Inl TypeError \<Longrightarrow> filterE p xs = Inl TypeError"
  by (induction xs) (auto split: sum.splits simp: error_TypeError)

lemma map_step_Some: "map_step (Some ts) = (\<lambda>i. Inr None)"
  by (simp add: map_step_def fun_eq_iff)

lemma query_filter_undefined:
  "query_filter query None = (if query = [] then Inr True else Inl TypeError)"
  by (cases query) (simp_all add: query_filter_def)

lemma categorize_throws:
  assumes "ids \<noteq> []" and "query \<noteq> []"
  shows "categorize query (Some ts) (c, ids) = Inl TypeError"
proof -
  from assms(1) have "None \<in> set (map (\<lambda>i. None :: task option) ids)"
    by (cases ids) simp_all
  then have "filterE (query_filter query) (map (\<lambda>i. None) ids) = Inl TypeError"
    using assms(2) by (intro filterE_throws [where x = None]) (simp_all add: query_filter_undefined)
  then show ?thesis
    by (simp add: categorize_def map_step_Some mapE_total)
qed

lemma categorize_empty_query:
  "categorize [] (Some ts) entry = Inr (fst entry, map (\<lambda>i. None) (snd entry))"
proof -
  have "filterE (query_filter []) xs = Inr xs" for xs :: "task option list"
    by (induction xs) (simp_all add: query_filter_def)
  then show ?thesis
    by (simp add: categorize_def map_step_Some mapE_total)
qed

text \<open>
  Claim C2. The map step of \<open>findCategories\<close> discards the task it reads, so the
  filter runs on \<open>undefined\<close> values: on a document with an id listed under some
  category, a query with at least one key makes the call throw a \<open>TypeError\<close> (a
  field of \<open>undefined\<close> is read); the empty query yields every category with each
  id replaced by \<open>undefined\<close>; and what the call does never depends on the task
  records of the document.
\<close>

theorem findCategories_filters_undefined:
  assumes "(c, ids) \<in> set (categories d)" and "ids \<noteq> []"
  shows "(query \<noteq> [] \<longrightarrow> Store_findCategories query True (Tasks_Doc d) = Threw TypeError)
    \<and> Store_findCategories [] True (Tasks_Doc d) =
        Yielded (map (\<lambda>entry. (fst entry, map (\<lambda>i. None) (snd entry))) (categories d))
    \<and> Store_findCategories query callback (Tasks_Doc (d\<lparr>tasks := ts\<rparr>)) =
        Store_findCategories query callback (Tasks_Doc d)"
proof (intro conjI impI)
  assume "query \<noteq> []"
  with assms have "mapE (categorize query (Some (tasks d))) (categories d) = Inl TypeError"
    by (intro mapE_throws [where x = "(c, ids)"]) (simp_all add: categorize_throws)
  then show "Store_findCategories query True (Tasks_Doc d) = Threw TypeError"
    by (simp add: Store_findCategories_def)
next
  have "categorize [] (Some (tasks d)) = (\<lambda>entry. Inr (fst entry, map (\<lambda>i. None) (snd entry)))"
    by (simp add: fun_eq_iff categorize_empty_query)
  then show "Store_findCategories [] True (Tasks_Doc d) =
      Yielded (map (\<lambda>entry. (fst entry, map (\<lambda>i. None) (snd entry))) (categories d))"
    by (simp add: Store_findCategories_def mapE_total)
next
  have "categorize query (Some ts) = categorize query (Some (tasks d))"
    by (simp add: fun_eq_iff categorize_def map_step_Some)
  then show "Store_findCategories query callback (Tasks_Doc (d\<lparr>tasks := ts\<rparr>)) =
      Store_findCategories query callback (Tasks_Doc d)"
    by (simp add: Store_findCategories_def)
qed

theorem findCategories_filters_undefined_witness:
  "Store_findCategories [(''completed'', JBool True)] True
     (Tasks_Doc \<lparr>tasks = [(5, [(''category'', JStr ''home''), (''completed'', JBool True),
                               (''id'', JNum 5)])],
                 categories = [(''home'', [5])]\<rparr>) = Threw TypeError
   \<and> Store_findCategories [] True
     (Tasks_Doc \<lparr>tasks = [(5, [(''category'', JStr ''home''), (''completed'', JBool True),
                               (''id'', JNum 5)])],
                 categories = [(''home'', [5])]\<rparr>) = Yielded [(''home'', [None])]"
  using findCategories_filters_undefined
    [of "''home''" "[5]"
        "\<lparr>tasks = [(5, [(''category'', JStr ''home''), (''completed'', JBool True),
                        (''id'', JNum 5)])],
          categories = [(''home'', [5])]\<rparr>"
        "[(''completed'', JBool True)]"]
  by simp

section \<open>drop\<close>

text \<open>
  Claim C3. \<open>drop\<close> writes \<open>{list: [], categories: {}}\<close> and calls the callback
  with it. That is not the empty document \<open>{tasks: {}, categories: {}}\<close> the
  constructor creates: it has no \<open>tasks\<close>, so after a drop \<open>find\<close> and
  \<open>save\<close> throw.
\<close>

theorem drop_writes_list_document:
  "Store_drop True st = (List_Doc [] [], Yielded (List_Doc [] []))
   \<and> List_Doc [] [] \<noteq> Tasks_Doc empty_document
   \<and> fst (Store_constructor None) = Tasks_Doc empty_document
   \<and> Store_find query True (fst (Store_drop True st)) = Threw TypeError
   \<and> Store_save updateData True None now (fst (Store_drop True st)) =
       (List_Doc [] [], Threw TypeError)"
  by (simp add: Store_drop_def Store_constructor_def Store_find_def Store_save_def save_new_def
      Let_def)

section \<open>Unknown ids\<close>



text \<open>
  Claim C6, as stated, fails for the id \<open>0\<close>: \<open>if (id)\<close> takes it as no id, so
  \<open>save(data, callback, 0)\<close> stores a new task and calls the callback.
\<close>

theorem save_unknown_zero_id_counterexample:
  "map_of (tasks empty_document) 0 = None
   \<and> Store_save [(''title'', JStr ''B'')] True (Some 0) 7 (Tasks_Doc empty_document) =
       (Tasks_Doc \<lparr>tasks = [(7, [(''title'', JStr ''B''), (''id'', JNum 7)])],
                   categories = [(''undefined'', [7])]\<rparr>,
        Yielded (Created [[(''title'', JStr ''B''), (''id'', JNum 7)]]))
   \<and> Store_save [(''title'', JStr ''B'')] True (Some 0) 7 (Tasks_Doc empty_document) \<noteq>
       (Tasks_Doc empty_document, Returned)"
  by (simp add: object_eval store_eval Let_def)

text \<open>
  Claim C6, amended. For every persisted document and every id that is no key of
  \<open>tasks\<close>, \<open>remove(id, callback)\<close> leaves the document as it is and does not call
  the callback, and so does \<open>save(data, callback, id)\<close> when the id is not \<open>0\<close>.
\<close>

theorem unknown_id_is_ignored:
  assumes "map_of (tasks d) i = None"
  shows "Store_remove i callback (Tasks_Doc d) = (Tasks_Doc d, Returned)
    \<and> (i \<noteq> 0 \<longrightarrow>
         Store_save updateData callback (Some i) now (Tasks_Doc d) = (Tasks_Doc d, Returned))"
  using assms by (simp add: Store_remove_def Store_save_def save_existing_def)

theorem unknown_id_is_ignored_witness:
  "Store_remove 9 True
     (Tasks_Doc \<lparr>tasks = [(5, [(''category'', JStr ''a''), (''id'', JNum 5)])],
                 categories = [(''a'', [5])]\<rparr>) =
   (Tasks_Doc \<lparr>tasks = [(5, [(''category'', JStr ''a''), (''id'', JNum 5)])],
               categories = [(''a'', [5])]\<rparr>, Returned)
   \<and> Store_save [(''title'', JStr ''B'')] True (Some 9) 7
     (Tasks_Doc \<lparr>tasks = [(5, [(''category'', JStr ''a''), (''id'', JNum 5)])],
                 categories = [(''a'', [5])]\<rparr>) =
   (Tasks_Doc \<lparr>tasks = [(5, [(''category'', JStr ''a''), (''id'', JNum 5)])],
               categories = [(''a'', [5])]\<rparr>, Returned)"
  using unknown_id_is_ignored
    [of "\<lparr>tasks = [(5, [(''category'', JStr ''a''), (''id'', JNum 5)])],
          categories = [(''a'', [5])]\<rparr>"
        9 True "[(''title'', JStr ''B'')]" 7]
  by simp

section \<open>save\<close>

lemma map_of_merge_loop:
  "map_of (merge_loop ks updateData t) k =
     (if k \<in> set ks \<and> map_of updateData k \<noteq> None then map_of updateData k else map_of t k)"
  by (induction ks arbitrary: t) (auto simp: map_of_obj_set split: option.splits)

lemma map_of_merge_loop_keys:
  "map_of (merge_loop (map fst updateData) updateData t) k =
     (case map_of updateData k of None \<Rightarrow> map_of t k | Some v \<Rightarrow> Some v)"
proof (cases "map_of updateData k")
  case None
  then show ?thesis by (simp add: map_of_merge_loop)
next
  case (Some v)
  then have "k \<in> set (map fst updateData)"
    by (metis map_of_eq_None_iff option.distinct(1) set_map)
  with Some show ?thesis by (simp add: map_of_merge_loop)
qed


text \<open>
  Claim C7, as stated, fails for the id \<open>0\<close>: with a task stored under the key
  \<open>0\<close>, \<open>save(data, callback, 0)\<close> takes the id as missing, leaves that task as
  it is and stores a new one, which also changes the category lists.
\<close>

theorem save_zero_id_counterexample:
  "map_of (tasks \<lparr>tasks = [(0, [(''title'', JStr ''A''), (''category'', JStr ''a''), (''id'', JNum 0)])],
                  categories = [(''a'', [0])]\<rparr>) 0 =
     Some [(''title'', JStr ''A''), (''category'', JStr ''a''), (''id'', JNum 0)]
   \<and> Store_save [(''title'', JStr ''B'')] True (Some 0) 7
       (Tasks_Doc \<lparr>tasks = [(0, [(''title'', JStr ''A''), (''category'', JStr ''a''), (''id'', JNum 0)])],
                   categories = [(''a'', [0])]\<rparr>) =
     (Tasks_Doc \<lparr>tasks = [(0, [(''title'', JStr ''A''), (''category'', JStr ''a''), (''id'', JNum 0)]),
                          (7, [(''title'', JStr ''B''), (''id'', JNum 7)])],
                  categories = [(''a'', [0]), (''undefined'', [7])]\<rparr>,
      Yielded (Created [[(''title'', JStr ''B''), (''id'', JNum 7)]]))"
  by (simp add: object_eval store_eval Let_def)

text \<open>
  Claim C7, amended. For every persisted document, every id other than \<open>0\<close> that
  is a key of \<open>tasks\<close>, and every update object, \<open>save(data, callback, id)\<close>
  writes and yields the document in which the task under that id has every field named
  in the data at the data's value and every other field as before; the keys of
  \<open>tasks\<close> and their order, every other task and \<open>categories\<close> are unchanged.
\<close>

theorem save_existing_merges_fields:
  assumes "i \<noteq> 0" and "map_of (tasks d) i = Some task"
  shows "\<exists>d' task'.
      Store_save updateData callback (Some i) now (Tasks_Doc d) = (Tasks_Doc d', Yielded (Updated d'))
    \<and> categories d' = categories d
    \<and> map fst (tasks d') = map fst (tasks d)
    \<and> map_of (tasks d') = (map_of (tasks d))(i \<mapsto> task')
    \<and> (\<forall>k. map_of task' k =
          (case map_of updateData k of None \<Rightarrow> map_of task k | Some v \<Rightarrow> Some v))"
proof -
  define task' where "task' = merge_loop (map fst updateData) updateData task"
  define d' where "d' = d\<lparr>tasks := obj_set array_index_nat i task' (tasks d)\<rparr>"
  have "Store_save updateData callback (Some i) now (Tasks_Doc d) =
      (Tasks_Doc d', Yielded (Updated d'))"
    using assms by (simp add: Store_save_def save_existing_def task'_def d'_def Let_def)
  moreover have "categories d' = categories d"
    by (simp add: d'_def)
  moreover have "map fst (tasks d') = map fst (tasks d)"
    using assms(2) by (simp add: d'_def obj_set_def keys_replace_own)
  moreover have "map_of (tasks d') = (map_of (tasks d))(i \<mapsto> task')"
    by (simp add: d'_def map_of_obj_set)
  moreover have "\<forall>k. map_of task' k =
      (case map_of updateData k of None \<Rightarrow> map_of task k | Some v \<Rightarrow> Some v)"
    by (simp add: task'_def map_of_merge_loop_keys)
  ultimately show ?thesis by blast
qed

theorem save_existing_merges_fields_witness:
  "(5::nat) \<noteq> 0 \<and> map_of (tasks example_doc) 5 = Some example_task
   \<and> Store_save [(''completed'', JBool True), (''note'', JStr ''x'')] True (Some 5) 9
       (Tasks_Doc example_doc) =
     (Tasks_Doc \<lparr>tasks = [(5, [(''title'', JStr ''A''), (''category'', JStr ''a''),
                                (''completed'', JBool True), (''id'', JNum 5), (''note'', JStr ''x'')]),
                         (6, [(''title'', JStr ''B''), (''category'', JStr ''a''), (''id'', JNum 6)])],
                  categories = [(''a'', [5, 6])]\<rparr>,
      Yielded (Updated \<lparr>tasks = [(5, [(''title'', JStr ''A''), (''category'', JStr ''a''),
                                (''completed'', JBool True), (''id'', JNum 5), (''note'', JStr ''x'')]),
                         (6, [(''title'', JStr ''B''), (''category'', JStr ''a''), (''id'', JNum 6)])],
                  categories = [(''a'', [5, 6])]\<rparr>))
   \<and> (\<exists>d' task'.
      Store_save [(''completed'', JBool True), (''note'', JStr ''x'')] True (Some 5) 9
        (Tasks_Doc example_doc) = (Tasks_Doc d', Yielded (Updated d'))
    \<and> categories d' = categories example_doc
    \<and> map fst (tasks d') = map fst (tasks example_doc)
    \<and> map_of (tasks d') = (map_of (tasks example_doc))(5 \<mapsto> task')
    \<and> (\<forall>k. map_of task' k =
          (case map_of [(''completed'', JBool True), (''note'', JStr ''x'')] k of
             None \<Rightarrow> map_of example_task k | Some v \<Rightarrow> Some v)))"
proof -
  have nonzero: "(5::nat) \<noteq> 0"
    by simp
  have known: "map_of (tasks example_doc) 5 = Some example_task"
    by (simp add: example_doc_def)
  have "Store_save [(''completed'', JBool True), (''note'', JStr ''x'')] True (Some 5) 9
       (Tasks_Doc example_doc) =
     (Tasks_Doc \<lparr>tasks = [(5, [(''title'', JStr ''A''), (''category'', JStr ''a''),
                                (''completed'', JBool True), (''id'', JNum 5), (''note'', JStr ''x'')]),
                         (6, [(''title'', JStr ''B''), (''category'', JStr ''a''), (''id'', JNum 6)])],
                  categories = [(''a'', [5, 6])]\<rparr>,
      Yielded (Updated \<lparr>tasks = [(5, [(''title'', JStr ''A''), (''category'', JStr ''a''),
                                (''completed'', JBool True), (''id'', JNum 5), (''note'', JStr ''x'')]),
                         (6, [(''title'', JStr ''B''), (''category'', JStr ''a''), (''id'', JNum 6)])],
                  categories = [(''a'', [5, 6])]\<rparr>))"
    by (simp add: example_doc_def example_task_def object_eval store_eval Let_def)
  with nonzero known show ?thesis
    using save_existing_merges_fields [OF nonzero known] by blast
qed




section \<open>remove\<close>

lemma remove1_at_first_index:
  assumes "j < length ids" and "ids ! j = i" and "i \<notin> set (take j ids)"
  shows "take j ids @ drop (Suc j) ids = remove1 i ids"
proof -
  have "ids = take j ids @ i # drop (Suc j) ids"
    using assms(1,2) id_take_nth_drop [of j ids] by simp
  then have "remove1 i ids = remove1 i (take j ids @ i # drop (Suc j) ids)"
    by simp
  also have "\<dots> = take j ids @ drop (Suc j) ids"
    using assms(3) by (simp add: remove1_append)
  finally show ?thesis by simp
qed

lemma remove_loop_finds:
  assumes "map_of (categories d) c = Some ids" and "i \<in> set ids" and "i \<notin> set (take j ids)"
  shows "remove_loop j i c d = Inr (removed i c ids d)"
  using assms
proof (induction j i c d rule: remove_loop.induct)
  case (1 j i c d)
  have bound: "j < length ids"
  proof (rule ccontr)
    assume "\<not> j < length ids"
    then have "take j ids = ids" by simp
    with "1.prems" show False by simp
  qed
  show ?case
  proof (cases "ids ! j = i")
    case True
    with bound "1.prems" have "take j ids @ drop (Suc j) ids = remove1 i ids"
      by (intro remove1_at_first_index)
    with True bound "1.prems"(1) show ?thesis
      by (subst remove_loop.simps) (simp add: removed_def Let_def)
  next
    case False
    with bound "1.prems" have "i \<notin> set (take (Suc j) ids)"
      by (simp add: take_Suc_conv_app_nth)
    with "1.IH" [OF "1.prems"(1) bound False "1.prems"(1,2)]
    have "remove_loop (Suc j) i c d = Inr (removed i c ids d)" .
    with False bound "1.prems"(1) show ?thesis
      by (subst remove_loop.simps) simp
  qed
qed

text \<open>
  Claim C5, as stated, fails on a document that \<open>save\<close> with an id reaches: after
  the category of task 5 was updated from \<open>a\<close> to \<open>b\<close>, the id is not in the
  list of \<open>b\<close>, so \<open>remove(5, callback)\<close> finds nothing, deletes nothing and
  calls the callback with the unchanged document.
\<close>

theorem remove_unindexed_task_counterexample:
  "fst (Store_save [(''category'', JStr ''b'')] True (Some 5) 7
     (fst (Store_save [(''title'', JStr ''B''), (''category'', JStr ''b'')] True None 6
       (fst (Store_save [(''title'', JStr ''A''), (''category'', JStr ''a'')] True None 5
         (Tasks_Doc empty_document))))))
   = Tasks_Doc \<lparr>tasks = [(5, [(''title'', JStr ''A''), (''category'', JStr ''b''), (''id'', JNum 5)]),
                          (6, [(''title'', JStr ''B''), (''category'', JStr ''b''), (''id'', JNum 6)])],
                 categories = [(''a'', [5]), (''b'', [6])]\<rparr>
   \<and> map_of (tasks \<lparr>tasks = [(5, [(''title'', JStr ''A''), (''category'', JStr ''b''), (''id'', JNum 5)]),
                          (6, [(''title'', JStr ''B''), (''category'', JStr ''b''), (''id'', JNum 6)])],
                 categories = [(''a'', [5]), (''b'', [6])]\<rparr>) 5 =
       Some [(''title'', JStr ''A''), (''category'', JStr ''b''), (''id'', JNum 5)]
   \<and> Store_remove 5 True
       (Tasks_Doc \<lparr>tasks = [(5, [(''title'', JStr ''A''), (''category'', JStr ''b''), (''id'', JNum 5)]),
                          (6, [(''title'', JStr ''B''), (''category'', JStr ''b''), (''id'', JNum 6)])],
                   categories = [(''a'', [5]), (''b'', [6])]\<rparr>) =
       (Tasks_Doc \<lparr>tasks = [(5, [(''title'', JStr ''A''), (''category'', JStr ''b''), (''id'', JNum 5)]),
                          (6, [(''title'', JStr ''B''), (''category'', JStr ''b''), (''id'', JNum 6)])],
                   categories = [(''a'', [5]), (''b'', [6])]\<rparr>,
        Yielded \<lparr>tasks = [(5, [(''title'', JStr ''A''), (''category'', JStr ''b''), (''id'', JNum 5)]),
                          (6, [(''title'', JStr ''B''), (''category'', JStr ''b''), (''id'', JNum 6)])],
                   categories = [(''a'', [5]), (''b'', [6])]\<rparr>)"
  by (simp add: object_eval store_eval Let_def)

text \<open>
  Claim C5, amended. For every persisted document and every id that is a key of
  \<open>tasks\<close> whose task's category is a key of \<open>categories\<close> with the id in its
  list (as the document invariant requires), \<open>remove(id, callback)\<close> deletes the id
  from \<open>tasks\<close>, removes its first occurrence from that list, deletes the category
  key when the list becomes empty, and writes and yields the resulting document.
\<close>

theorem remove_deletes_task_and_index_entry:
  assumes "map_of (tasks d) i = Some task"
    and "map_of (categories d) (category_key task) = Some ids"
    and "i \<in> set ids"
  shows "\<exists>d'. Store_remove i True (Tasks_Doc d) = (Tasks_Doc d', Yielded d')
    \<and> tasks d' = filter (\<lambda>p. fst p \<noteq> i) (tasks d)
    \<and> map_of (tasks d') = (map_of (tasks d))(i := None)
    \<and> map_of (categories d') = (map_of (categories d))(category_key task :=
          (if remove1 i ids = [] then None else Some (remove1 i ids)))"
proof -
  define d' where "d' = removed i (category_key task) ids d"
  have "remove_loop 0 i (category_key task) d = Inr d'"
    using assms(2,3) by (simp add: d'_def remove_loop_finds)
  with assms(1) have "Store_remove i True (Tasks_Doc d) = (Tasks_Doc d', Yielded d')"
    by (simp add: Store_remove_def)
  moreover have "tasks d' = filter (\<lambda>p. fst p \<noteq> i) (tasks d)"
    by (simp add: d'_def removed_def obj_delete_def)
  moreover have "map_of (tasks d') = (map_of (tasks d))(i := None)"
    by (simp add: d'_def removed_def map_of_obj_delete)
  moreover have "map_of (categories d') = (map_of (categories d))(category_key task :=
      (if remove1 i ids = [] then None else Some (remove1 i ids)))"
    by (simp add: d'_def removed_def map_of_obj_delete map_of_obj_set)
  ultimately show ?thesis by blast
qed

theorem remove_deletes_task_and_index_entry_witness:
  "map_of (tasks example_doc) 5 = Some example_task
   \<and> map_of (categories example_doc) (category_key example_task) = Some [5, 6]
   \<and> 5 \<in> set [5, 6::nat]
   \<and> Store_remove 5 True (Tasks_Doc example_doc) =
       (Tasks_Doc \<lparr>tasks = [(6, [(''title'', JStr ''B''), (''category'', JStr ''a''), (''id'', JNum 6)])],
                   categories = [(''a'', [6])]\<rparr>,
        Yielded \<lparr>tasks = [(6, [(''title'', JStr ''B''), (''category'', JStr ''a''), (''id'', JNum 6)])],
                  categories = [(''a'', [6])]\<rparr>)
   \<and> (\<exists>d'. Store_remove 5 True (Tasks_Doc example_doc) = (Tasks_Doc d', Yielded d')
      \<and> tasks d' = filter (\<lambda>p. fst p \<noteq> 5) (tasks example_doc)
      \<and> map_of (tasks d') = (map_of (tasks example_doc))(5 := None)
      \<and> map_of (categories d') = (map_of (categories example_doc))(category_key example_task :=
            (if remove1 5 [5, 6::nat] = [] then None else Some (remove1 5 [5, 6]))))"
proof -
  have known: "map_of (tasks example_doc) 5 = Some example_task"
    by (simp add: example_doc_def)
  have indexed: "map_of (categories example_doc) (category_key example_task) = Some [5, 6]"
    by (simp add: example_doc_def example_task_def category_key_def)
  have listed: "5 \<in> set [5, 6::nat]"
    by simp
  have "Store_remove 5 True (Tasks_Doc example_doc) =
       (Tasks_Doc \<lparr>tasks = [(6, [(''title'', JStr ''B''), (''category'', JStr ''a''), (''id'', JNum 6)])],
                   categories = [(''a'', [6])]\<rparr>,
        Yielded \<lparr>tasks = [(6, [(''title'', JStr ''B''), (''category'', JStr ''a''), (''id'', JNum 6)])],
                  categories = [(''a'', [6])]\<rparr>)"
    by (simp add: example_doc_def example_task_def object_eval store_eval Let_def)
  moreover note known indexed listed
  moreover have "\<exists>d'. Store_remove 5 True (Tasks_Doc example_doc) = (Tasks_Doc d', Yielded d')
      \<and> tasks d' = filter (\<lambda>p. fst p \<noteq> 5) (tasks example_doc)
      \<and> map_of (tasks d') = (map_of (tasks example_doc))(5 := None)
      \<and> map_of (categories d') = (map_of (categories example_doc))(category_key example_task :=
            (if remove1 5 [5, 6::nat] = [] then None else Some (remove1 5 [5, 6])))"
    by (rule remove_deletes_task_and_index_entry [OF known indexed listed])
  ultimately show ?thesis
    by (intro conjI)
qed

section \<open>The document invariant\<close>

text \<open>
  Claim C1. The operations do not all preserve the document invariant. From the empty
  document two saves reach \<open>example_doc\<close>, where the invariant holds; a save with
  the id 5 and a new category then changes the task's category and leaves the index as
  it was, so the task's category is no key of \<open>categories\<close>. And two saves at the
  same time 5 list the id twice; \<open>remove\<close> then deletes the task and one occurrence,
  and the list keeps an id that is no key of \<open>tasks\<close>.
\<close>

theorem save_existing_breaks_invariant:
  "fst (Store_save [(''title'', JStr ''B''), (''category'', JStr ''a'')] True None 6
     (fst (Store_save [(''title'', JStr ''A''), (''category'', JStr ''a''), (''completed'', JBool False)]
       True None 5 (fst (Store_constructor None))))) = Tasks_Doc example_doc
   \<and> doc_inv example_doc
   \<and> fst (Store_save [(''category'', JStr ''b'')] True (Some 5) 9 (Tasks_Doc example_doc)) =
       Tasks_Doc \<lparr>tasks = [(5, [(''title'', JStr ''A''), (''category'', JStr ''b''),
                                 (''completed'', JBool False), (''id'', JNum 5)]),
                            (6, [(''title'', JStr ''B''), (''category'', JStr ''a''), (''id'', JNum 6)])],
                   categories = [(''a'', [5, 6])]\<rparr>
   \<and> \<not> doc_inv \<lparr>tasks = [(5, [(''title'', JStr ''A''), (''category'', JStr ''b''),
                                 (''completed'', JBool False), (''id'', JNum 5)]),
                            (6, [(''title'', JStr ''B''), (''category'', JStr ''a''), (''id'', JNum 6)])],
                   categories = [(''a'', [5, 6])]\<rparr>
   \<and> fst (Store_save [(''title'', JStr ''Y''), (''category'', JStr ''a'')] True None 5
       (fst (Store_save [(''title'', JStr ''X''), (''category'', JStr ''a'')] True None 5
         (fst (Store_constructor None))))) =
       Tasks_Doc \<lparr>tasks = [(5, [(''title'', JStr ''Y''), (''category'', JStr ''a''), (''id'', JNum 5)])],
                   categories = [(''a'', [5, 5])]\<rparr>
   \<and> doc_inv \<lparr>tasks = [(5, [(''title'', JStr ''Y''), (''category'', JStr ''a''), (''id'', JNum 5)])],
                categories = [(''a'', [5, 5])]\<rparr>
   \<and> fst (Store_remove 5 True
       (Tasks_Doc \<lparr>tasks = [(5, [(''title'', JStr ''Y''), (''category'', JStr ''a''), (''id'', JNum 5)])],
                   categories = [(''a'', [5, 5])]\<rparr>)) =
       Tasks_Doc \<lparr>tasks = [], categories = [(''a'', [5])]\<rparr>
   \<and> \<not> doc_inv \<lparr>tasks = [], categories = [(''a'', [5])]\<rparr>"
  by (simp add: example_doc_def example_task_def object_eval store_eval Let_def)

section \<open>show\<close>

lemma reUnescapedHtml_iff: "reUnescapedHtml c \<longleftrightarrow> escapeHtmlChar c \<noteq> None"
  by (simp add: reUnescapedHtml_def escapeHtmlChar_def htmlEscapes_def)

lemma replace_unescaped_concat:
  "replace_unescaped s = concat (map (\<lambda>c. case escapeHtmlChar c of None \<Rightarrow> [c] | Some e \<Rightarrow> e) s)"
  by (induction s) (auto simp: reUnescapedHtml_iff)

lemma replace_unescaped_plain: "\<not> list_ex reUnescapedHtml s \<Longrightarrow> replace_unescaped s = s"
  by (induction s) auto

lemma escape_string: "escape (Some (JStr s)) = Some (JStr (replace_unescaped s))"
  by (cases "list_ex reUnescapedHtml s") (auto simp: replace_unescaped_plain)

lemma no_markup_in_entity:
  "escapeHtmlChar c = Some e \<Longrightarrow>
     list_all (\<lambda>x. x \<notin> set [CHR ''<'', CHR ''>'', CHR 0x22, CHR 0x27, CHR 0x60]) e"
  by (auto simp: escapeHtmlChar_def htmlEscapes_def split: if_splits)

lemma no_markup_in_escaped:
  "list_all (\<lambda>x. x \<notin> set [CHR ''<'', CHR ''>'', CHR 0x22, CHR 0x27, CHR 0x60]) (replace_unescaped s)"
proof (induction s)
  case Nil
  then show ?case by simp
next
  case (Cons c s)
  show ?case
  proof (cases "escapeHtmlChar c")
    case None
    then have "\<not> reUnescapedHtml c" by (simp add: reUnescapedHtml_iff)
    moreover from this have "c \<notin> set [CHR ''<'', CHR ''>'', CHR 0x22, CHR 0x27, CHR 0x60]"
      by (auto simp: reUnescapedHtml_def)
    ultimately show ?thesis using Cons by simp
  next
    case (Some e)
    then have "reUnescapedHtml c" by (simp add: reUnescapedHtml_iff)
    with Some Cons no_markup_in_entity [OF Some] show ?thesis by simp
  qed
qed


lemmas template_eval =
  js_replace_def defaultTemplate_def templateWrapper_def reUnescapedHtml_def escapeHtmlChar_def
  htmlEscapes_def


text \<open>
  Claim C9. \<open>escape\<close> replaces every occurrence of the six characters of
  \<open>reUnescapedHtml\<close> in a string by its HTML entity and keeps every other
  character, so no angle bracket, quote, apostrophe or backtick is left; \<open>show\<close>
  interpolates the escaped title, and the escaped category when it is shown, into the
  item template, after the id and before the completed and checked markers. For the
  task with the title \<open><b>\<close> the result holds the escaped form, not the raw
  markup, and the \<open>checked\<close> marker; a category is escaped when it is shown and
  left out when it is not.
\<close>

theorem show_escapes_title_and_category:
  \<open>escape (Some (JStr s)) =
     Some (JStr (concat (map (\<lambda>c. case escapeHtmlChar c of None \<Rightarrow> [c] | Some e \<Rightarrow> e) s)))
   \<and> map escapeHtmlChar [CHR ''&'', CHR ''<'', CHR ''>'', CHR 0x22, CHR 0x27, CHR 0x60] =
       [Some ''&amp;'', Some ''&lt;'', Some ''&gt;'', Some ''&quot;'', Some ''&#x27;'', Some ''&#x60;'']
   \<and> (escapeHtmlChar c = None) =
       (c \<notin> set [CHR ''&'', CHR ''<'', CHR ''>'', CHR 0x22, CHR 0x27, CHR 0x60])
   \<and> list_all (\<lambda>x. x \<notin> set [CHR ''<'', CHR ''>'', CHR 0x22, CHR 0x27, CHR 0x60])
         (to_string (escape (Some (JStr s))))
   \<and> show_item todo showCategory =
       js_replace (js_replace (js_replace (js_replace (js_replace defaultTemplate
         ''{{id}}'' (to_string (map_of todo ''id'')))
         ''{{title}}'' (to_string (escape (map_of todo ''title''))))
         ''{{category}}'' (if showCategory then to_string (escape (map_of todo ''category'')) else []))
         ''{{completed}}'' (if truthy (map_of todo ''completed'') then ''completed'' else []))
         ''{{checked}}'' (if truthy (map_of todo ''completed'') then ''checked'' else [])
   \<and> Template_show [[(''id'', JNum 1), (''title'', JStr ''<b>''), (''category'', JStr ''x''),
                       (''completed'', JBool True)]] True =
       ''<ul class="todo-list"><li data-id="1" class="completed"><div class="view"><input class="toggle" type="checkbox" checked><label class="title-label">&lt;b&gt;</label><label class="category-label">x</label><button class="destroy"></button></div></li></ul>''
   \<and> js_includes (Template_show [[(''id'', JNum 1), (''title'', JStr ''<b>''), (''category'', JStr ''x''),
                       (''completed'', JBool True)]] True) ''&lt;b&gt;''
   \<and> \<not> js_includes (Template_show [[(''id'', JNum 1), (''title'', JStr ''<b>''), (''category'', JStr ''x''),
                       (''completed'', JBool True)]] True) ''<b>''
   \<and> js_includes (Template_show [[(''id'', JNum 1), (''title'', JStr ''<b>''), (''category'', JStr ''x''),
                       (''completed'', JBool True)]] True) ''checked''
   \<and> show_item [(''id'', JNum 2), (''title'', JStr [CHR ''a'', CHR 0x22, CHR ''b'']),
                  (''category'', JStr ''<i>&''), (''completed'', JBool False)] True =
       ''<li data-id="2" class=""><div class="view"><input class="toggle" type="checkbox" ><label class="title-label">a&quot;b</label><label class="category-label">&lt;i&gt;&amp;</label><button class="destroy"></button></div></li>''
   \<and> show_item [(''id'', JNum 2), (''title'', JStr [CHR ''a'', CHR 0x22, CHR ''b'']),
                  (''category'', JStr ''<i>&''), (''completed'', JBool False)] False =
       ''<li data-id="2" class=""><div class="view"><input class="toggle" type="checkbox" ><label class="title-label">a&quot;b</label><label class="category-label"></label><button class="destroy"></button></div></li>''\<close>
proof -
  have escaped: "escape (Some (JStr s)) =
      Some (JStr (concat (map (\<lambda>c. case escapeHtmlChar c of None \<Rightarrow> [c] | Some e \<Rightarrow> e) s)))"
    by (simp only: escape_string replace_unescaped_concat)
  have entities: "map escapeHtmlChar [CHR ''&'', CHR ''<'', CHR ''>'', CHR 0x22, CHR 0x27, CHR 0x60] =
      [Some ''&amp;'', Some ''&lt;'', Some ''&gt;'', Some ''&quot;'', Some ''&#x27;'', Some ''&#x60;'']"
    by (simp add: escapeHtmlChar_def htmlEscapes_def)
  have others: "(escapeHtmlChar c = None) =
      (c \<notin> set [CHR ''&'', CHR ''<'', CHR ''>'', CHR 0x22, CHR 0x27, CHR 0x60])"
    by (simp add: escapeHtmlChar_def htmlEscapes_def)
  have clean: "list_all (\<lambda>x. x \<notin> set [CHR ''<'', CHR ''>'', CHR 0x22, CHR 0x27, CHR 0x60])
      (to_string (escape (Some (JStr s))))"
    by (simp only: escape_string to_string.simps no_markup_in_escaped)
  have interpolated: "show_item todo showCategory =
       js_replace (js_replace (js_replace (js_replace (js_replace defaultTemplate
         ''{{id}}'' (to_string (map_of todo ''id'')))
         ''{{title}}'' (to_string (escape (map_of todo ''title''))))
         ''{{category}}'' (if showCategory then to_string (escape (map_of todo ''category'')) else []))
         ''{{completed}}'' (if truthy (map_of todo ''completed'') then ''completed'' else []))
         ''{{checked}}'' (if truthy (map_of todo ''completed'') then ''checked'' else [])"
    unfolding show_item_def Let_def by (rule refl)
  have shown: \<open>Template_show [[(''id'', JNum 1), (''title'', JStr ''<b>''), (''category'', JStr ''x''),
                       (''completed'', JBool True)]] True =
       ''<ul class="todo-list"><li data-id="1" class="completed"><div class="view"><input class="toggle" type="checkbox" checked><label class="title-label">&lt;b&gt;</label><label class="category-label">x</label><button class="destroy"></button></div></li></ul>''\<close>
    unfolding Template_show_def show_item_def show_loop.simps Let_def
    by (simp add: template_eval object_eval)
  have escaped_in: \<open>js_includes ''<ul class="todo-list"><li data-id="1" class="completed"><div class="view"><input class="toggle" type="checkbox" checked><label class="title-label">&lt;b&gt;</label><label class="category-label">x</label><button class="destroy"></button></div></li></ul>'' ''&lt;b&gt;''\<close>
    by (simp add: js_includes_def)
  have raw_out: \<open>\<not> js_includes ''<ul class="todo-list"><li data-id="1" class="completed"><div class="view"><input class="toggle" type="checkbox" checked><label class="title-label">&lt;b&gt;</label><label class="category-label">x</label><button class="destroy"></button></div></li></ul>'' ''<b>''\<close>
    by (simp add: js_includes_def)
  have checked_in: \<open>js_includes ''<ul class="todo-list"><li data-id="1" class="completed"><div class="view"><input class="toggle" type="checkbox" checked><label class="title-label">&lt;b&gt;</label><label class="category-label">x</label><button class="destroy"></button></div></li></ul>'' ''checked''\<close>
    by (simp add: js_includes_def)
  have with_category: \<open>show_item [(''id'', JNum 2), (''title'', JStr [CHR ''a'', CHR 0x22, CHR ''b'']),
                  (''category'', JStr ''<i>&''), (''completed'', JBool False)] True =
       ''<li data-id="2" class=""><div class="view"><input class="toggle" type="checkbox" ><label class="title-label">a&quot;b</label><label class="category-label">&lt;i&gt;&amp;</label><button class="destroy"></button></div></li>''\<close>
    unfolding show_item_def Let_def
    by (simp add: template_eval object_eval)
  have without_category: \<open>show_item [(''id'', JNum 2), (''title'', JStr [CHR ''a'', CHR 0x22, CHR ''b'']),
                  (''category'', JStr ''<i>&''), (''completed'', JBool False)] False =
       ''<li data-id="2" class=""><div class="view"><input class="toggle" type="checkbox" ><label class="title-label">a&quot;b</label><label class="category-label"></label><button class="destroy"></button></div></li>''\<close>
    unfolding show_item_def Let_def
    by (simp add: template_eval object_eval)
  show ?thesis
    unfolding shown
    using escaped entities others clean interpolated escaped_in raw_out checked_in with_category without_category
    by (intro conjI) (assumption | rule refl)+
qed

end
